theory Spec2Isabelle
  imports Main
begin

section \<open>Data model\<close>

text \<open>
  Identifiers are the string form of a UUID, as the models store them
  (\<^verbatim>\<open>UUID(as_uuid=False)\<close>). A stored \<^verbatim>\<open>datetime\<close> is a point on the UTC time line, counted
  in whole seconds since the epoch (the resolution of a token's \<^verbatim>\<open>exp\<close> claim).
\<close>

type_synonym uuid = string
type_synonym datetime = int

text \<open>\<^verbatim>\<open>schemas/booking_schema.py\<close>: \<^verbatim>\<open>class BookingStatus(str, Enum)\<close>.\<close>

datatype BookingStatus = pending | confirmed | cancelled | completed

text \<open>\<^verbatim>\<open>models/service_model.py\<close>, the columns the booking engine reads.\<close>

record Service =
  s_id :: uuid
  s_owner_id :: uuid
  s_is_active :: bool

text \<open>\<^verbatim>\<open>models/booking_model.py\<close>.\<close>

record Booking =
  b_id :: uuid
  b_user_id :: uuid
  b_service_id :: uuid
  b_status :: BookingStatus
  b_start_time :: datetime
  b_end_time :: datetime
  b_created_at :: datetime

text \<open>\<^verbatim>\<open>models/user_model.py\<close>; \<open>u_status\<close> is the login state, \<open>u_is_active\<close> the soft-delete flag.\<close>

datatype UserStatus = active | inactive

datatype UserRole = user | admin

record User =
  u_id :: uuid
  u_email :: string
  u_status :: UserStatus
  u_role :: UserRole
  u_is_active :: bool

text \<open>
  The errors a caller sees. The source raises \<^verbatim>\<open>HTTPException\<close>s; each constructor stands for
  one status code and detail family:
  \<^item> \<open>NotFound\<close>: 404;
  \<^item> \<open>Forbidden\<close>: 403;
  \<^item> \<open>InvalidInterval\<close>: the \<^verbatim>\<open>ValueError\<close> of a schema validator (422);
  \<^item> \<open>InvalidTransition\<close>: 400 "Can only reschedule/cancel pending or confirmed bookings";
  \<^item> \<open>TooLate\<close>: 400 "Cannot delete booking that has already started";
  \<^item> \<open>Conflict\<close>: 409;
  \<^item> \<open>Invalid\<close>: 401 "Could not validate credentials" / "Invalid refresh token";
  \<^item> \<open>Revoked\<close>: 401 "Token has been revoked" / "Refresh token has been revoked";
  \<^item> \<open>Unavailable\<close>: 500, raised by the \<^verbatim>\<open>except Exception\<close> handlers and sent for an
    exception nothing handles.
\<close>

datatype error =
    NotFound | Forbidden | InvalidInterval | InvalidTransition | TooLate
  | Conflict | Invalid | Revoked | Unavailable

section \<open>Datetimes of a request\<close>

text \<open>
  A datetime parsed from a request body carries a UTC offset (\<open>Aware\<close>, given here by its
  instant) or none (\<open>Naive\<close>, given by its wall-clock reading). Python orders two aware or
  two naive values and raises \<^verbatim>\<open>TypeError\<close> (\<open>None\<close>) for a mixed pair.
  \<open>replace_tzinfo_utc\<close> is the source's \<^verbatim>\<open>if v.tzinfo is None: v = v.replace(tzinfo=utc)\<close>.
\<close>

datatype py_datetime = Aware datetime | Naive datetime

fun instant :: "py_datetime \<Rightarrow> datetime" where
  "instant (Aware t) = t"
| "instant (Naive t) = t"

definition replace_tzinfo_utc :: "py_datetime \<Rightarrow> py_datetime" where
  "replace_tzinfo_utc v = (case v of Naive t \<Rightarrow> Aware t | Aware t \<Rightarrow> Aware t)"

fun py_le :: "py_datetime \<Rightarrow> py_datetime \<Rightarrow> bool option" where
  "py_le (Aware x) (Aware y) = Some (x \<le> y)"
| "py_le (Naive x) (Naive y) = Some (x \<le> y)"
| "py_le _ _ = None"

section \<open>The entity store\<close>

text \<open>
  A token as the holder of \<^verbatim>\<open>SECRET_KEY\<close> sees it. \<^verbatim>\<open>python-jose\<close> is a library outside
  the repository; what the code relies on is kept: a string is either not a JWT at all, or
  it carries a payload and a signature that does or does not verify under the key.
  \<open>c_type\<close> is the \<^verbatim>\<open>type\<close> claim.
\<close>

record claims =
  c_sub :: "string option"
  c_jti :: "string option"
  c_exp :: "datetime option"
  c_iat :: "datetime option"
  c_type :: "string option"

datatype token = Malformed string | JWT claims bool

text \<open>\<^verbatim>\<open>models/token_blacklist.py\<close>: one ledger row (\<^verbatim>\<open>blacklisted_at\<close> is never read).\<close>

record TokenBlacklist =
  tb_jti :: string
  tb_token :: token
  tb_expires_at :: datetime

text \<open>
  The tables a \<^verbatim>\<open>Session\<close> reads and writes, each in insertion order. A \<^verbatim>\<open>commit\<close> may
  fail, and so may a read that follows it (\<^verbatim>\<open>db.refresh\<close>, or the reload of an object the
  commit has expired); the operations below take the outcome of each such step as an
  argument (\<open>commit_ok\<close>, \<open>refresh_ok\<close>, \<open>reload_ok\<close>) and return the store together with their
  result. A write that was committed stays in the returned store whatever follows.
\<close>

record db =
  services :: "Service list"
  bookings :: "Booking list"
  users :: "User list"
  token_blacklist :: "TokenBlacklist list"

section \<open>Booking scheduler (\<^verbatim>\<open>services/booking_crud.py\<close>)\<close>

text \<open>The \<^verbatim>\<open>or_(...)\<close> of \<^verbatim>\<open>_has_time_conflict\<close>, for one stored row.\<close>

definition time_conflict_condition :: "Booking \<Rightarrow> datetime \<Rightarrow> datetime \<Rightarrow> bool" where
  "time_conflict_condition b start_time end_time =
     ((b_start_time b \<le> start_time \<and> start_time < b_end_time b)
      \<or> (b_start_time b < end_time \<and> end_time \<le> b_end_time b)
      \<or> (start_time \<le> b_start_time b \<and> b_end_time b \<le> end_time))"

text \<open>
  \<^verbatim>\<open>BookingCRUD._has_time_conflict\<close>. Ordering a column against \<^verbatim>\<open>None\<close> makes SQLAlchemy
  raise \<^verbatim>\<open>ArgumentError\<close> while the query is built, whatever the table holds: the result is
  \<open>None\<close> then. \<^verbatim>\<open>if exclude_booking_id:\<close> is false for \<^verbatim>\<open>None\<close> and for the empty string.
\<close>

definition has_time_conflict ::
  "db \<Rightarrow> uuid \<Rightarrow> datetime option \<Rightarrow> datetime option \<Rightarrow> uuid option \<Rightarrow> bool option" where
  "has_time_conflict d service_id start_time end_time exclude_booking_id =
     (case (start_time, end_time) of
        (Some s, Some e) \<Rightarrow>
          (let query = filter (\<lambda>b. b_service_id b = service_id
                                  \<and> (b_status b = pending \<or> b_status b = confirmed)
                                  \<and> time_conflict_condition b s e)
                              (bookings d);
               query2 = (case exclude_booking_id of
                           None \<Rightarrow> query
                         | Some x \<Rightarrow> if x = [] then query
                                     else filter (\<lambda>b. b_id b \<noteq> x) query)
           in Some (query2 \<noteq> []))
      | _ \<Rightarrow> None)"

text \<open>
  \<^verbatim>\<open>schemas/booking_schema.py\<close>. \<open>BookingCreateBody\<close> is the parsed request body;
  \<open>BookingCreate\<close> is the object the validators let through. The field validator returns
  the start as an aware value; the model validator then compares the end, as it was
  parsed, with that start, so an end without offset raises \<^verbatim>\<open>TypeError\<close>, which pydantic
  does not turn into a validation error. Both times of a validated object are aware and
  are kept as instants.
\<close>

record BookingCreateBody =
  body_service_id :: uuid
  body_start_time :: py_datetime
  body_end_time :: py_datetime

record BookingCreate =
  bc_service_id :: uuid
  bc_start_time :: datetime
  bc_end_time :: datetime

definition start_time_must_be_in_future :: "datetime \<Rightarrow> py_datetime \<Rightarrow> error + py_datetime" where
  "start_time_must_be_in_future now v =
     (let v2 = replace_tzinfo_utc v
      in if instant v2 \<le> now then Inl InvalidInterval else Inr v2)"

definition end_time_must_be_after_start_time :: "BookingCreateBody \<Rightarrow> error + BookingCreate" where
  "end_time_must_be_after_start_time self =
     (case py_le (body_end_time self) (body_start_time self) of
        None \<Rightarrow> Inl Unavailable
      | Some True \<Rightarrow> Inl InvalidInterval
      | Some False \<Rightarrow> Inr \<lparr> bc_service_id = body_service_id self,
                             bc_start_time = instant (body_start_time self),
                             bc_end_time = instant (body_end_time self) \<rparr>)"

text \<open>The validators in the order pydantic runs them: field validator, then model validator.\<close>

definition BookingCreate_validate :: "datetime \<Rightarrow> BookingCreateBody \<Rightarrow> error + BookingCreate" where
  "BookingCreate_validate now body =
     (case start_time_must_be_in_future now (body_start_time body) of
        Inl e \<Rightarrow> Inl e
      | Inr v \<Rightarrow> end_time_must_be_after_start_time (body\<lparr>body_start_time := v\<rparr>))"

text \<open>
  \<^verbatim>\<open>BookingCRUD.create_booking\<close>. \<open>new_id\<close> and \<open>now\<close> are the column defaults
  (\<^verbatim>\<open>uuid4()\<close>, \<^verbatim>\<open>datetime.now\<close>). A failed commit is rolled back and reported as 500; a
  failed \<^verbatim>\<open>db.refresh\<close> is reported as 500 too, with the booking already committed.
\<close>

definition create_booking ::
  "db \<Rightarrow> BookingCreate \<Rightarrow> uuid \<Rightarrow> uuid \<Rightarrow> datetime \<Rightarrow> bool \<Rightarrow> bool
     \<Rightarrow> db \<times> (error + Booking)" where
  "create_booking d booking user_id new_id now commit_ok refresh_ok =
     (case find (\<lambda>s. s_id s = bc_service_id booking \<and> s_is_active s) (services d) of
        None \<Rightarrow> (d, Inl NotFound)
      | Some service \<Rightarrow>
          (case has_time_conflict d (bc_service_id booking)
                  (Some (bc_start_time booking)) (Some (bc_end_time booking)) None of
             None \<Rightarrow> (d, Inl Unavailable)
           | Some True \<Rightarrow> (d, Inl Conflict)
           | Some False \<Rightarrow>
               if commit_ok then
                 (let db_booking = \<lparr> b_id = new_id, b_user_id = user_id,
                                      b_service_id = bc_service_id booking, b_status = pending,
                                      b_start_time = bc_start_time booking,
                                      b_end_time = bc_end_time booking, b_created_at = now \<rparr>
                  in (d\<lparr>bookings := bookings d @ [db_booking]\<rparr>,
                      if refresh_ok then Inr db_booking else Inl Unavailable))
               else (d, Inl Unavailable)))"

text \<open>\<^verbatim>\<open>routes/booking_route.py\<close>, \<^verbatim>\<open>POST /bookings\<close>: the body is parsed into a
  \<^verbatim>\<open>BookingCreate\<close> (running the validators) before the handler calls the CRUD function.\<close>

definition create_booking_route ::
  "db \<Rightarrow> BookingCreateBody \<Rightarrow> uuid \<Rightarrow> uuid \<Rightarrow> datetime \<Rightarrow> bool \<Rightarrow> bool
     \<Rightarrow> db \<times> (error + Booking)" where
  "create_booking_route d body current_user_id new_id now commit_ok refresh_ok =
     (case BookingCreate_validate now body of
        Inl e \<Rightarrow> (d, Inl e)
      | Inr booking \<Rightarrow> create_booking d booking current_user_id new_id now commit_ok refresh_ok)"

text \<open>
  \<^verbatim>\<open>BookingUpdate\<close>: every field is optional. \<^verbatim>\<open>model_dump(exclude_unset=True)\<close> tells a
  field the request left out (\<open>Unset\<close>) from one it sent as \<^verbatim>\<open>null\<close> (\<open>Null\<close>).
\<close>

datatype 'a field = Unset | Null | Val 'a

record BookingUpdate =
  bu_start_time :: "datetime field"
  bu_end_time :: "datetime field"
  bu_status :: "BookingStatus field"

text \<open>\<^verbatim>\<open>"key" in update_data\<close> and \<^verbatim>\<open>update_data.get("key", default)\<close>.\<close>

definition in_update_data :: "'a field \<Rightarrow> bool" where
  "in_update_data f = (f \<noteq> Unset)"

definition update_data_get :: "'a field \<Rightarrow> 'a \<Rightarrow> 'a option" where
  "update_data_get f dflt = (case f of Unset \<Rightarrow> Some dflt | Null \<Rightarrow> None | Val v \<Rightarrow> Some v)"

text \<open>\<^verbatim>\<open>if value is not None: setattr(db_booking, key, value)\<close>, for one key.\<close>

definition setattr_if_not_none :: "'a field \<Rightarrow> 'a \<Rightarrow> 'a" where
  "setattr_if_not_none f old = (case f of Val v \<Rightarrow> v | _ \<Rightarrow> old)"

text \<open>\<^verbatim>\<open>str(user_id)\<close> for an optional id: \<^verbatim>\<open>str(None)\<close> is the text \<^verbatim>\<open>None\<close>.\<close>

definition str_of_id :: "uuid option \<Rightarrow> string" where
  "str_of_id user_id = (case user_id of None \<Rightarrow> ''None'' | Some u \<Rightarrow> u)"

text \<open>The row an ORM object stands for is the first one with its primary key.\<close>

fun write_row :: "uuid \<Rightarrow> Booking \<Rightarrow> Booking list \<Rightarrow> Booking list" where
  "write_row k v [] = []"
| "write_row k v (x # xs) = (if b_id x = k then v # xs else x # write_row k v xs)"


text \<open>
  The end of the \<^verbatim>\<open>try\<close> block of \<^verbatim>\<open>update_booking\<close>: the \<^verbatim>\<open>setattr\<close> loop, the commit and
  \<^verbatim>\<open>db.refresh\<close>.
\<close>

definition update_booking_write ::
  "db \<Rightarrow> uuid \<Rightarrow> Booking \<Rightarrow> BookingUpdate \<Rightarrow> bool \<Rightarrow> bool \<Rightarrow> db \<times> (error + Booking)" where
  "update_booking_write d booking_id db_booking booking_update commit_ok refresh_ok =
     (if commit_ok then
        (let updated = db_booking
               \<lparr> b_start_time :=
                   setattr_if_not_none (bu_start_time booking_update) (b_start_time db_booking),
                 b_end_time :=
                   setattr_if_not_none (bu_end_time booking_update) (b_end_time db_booking),
                 b_status :=
                   setattr_if_not_none (bu_status booking_update) (b_status db_booking) \<rparr>
         in (d\<lparr>bookings := write_row booking_id updated (bookings d)\<rparr>,
             if refresh_ok then Inr updated else Inl Unavailable))
      else (d, Inl Unavailable))"

text \<open>
  \<^verbatim>\<open>BookingCRUD.update_booking\<close>. A patch that sends a time as \<^verbatim>\<open>null\<close> hands \<^verbatim>\<open>None\<close> to the
  conflict query; the \<^verbatim>\<open>ArgumentError\<close> is caught by the \<^verbatim>\<open>except Exception\<close> handler.
\<close>

definition update_booking ::
  "db \<Rightarrow> uuid \<Rightarrow> BookingUpdate \<Rightarrow> uuid option \<Rightarrow> bool \<Rightarrow> bool \<Rightarrow> bool
     \<Rightarrow> db \<times> (error + Booking)" where
  "update_booking d booking_id booking_update user_id is_admin commit_ok refresh_ok =
     (let user_id_str = str_of_id user_id in
      case find (\<lambda>b. b_id b = booking_id) (bookings d) of
        None \<Rightarrow> (d, Inl NotFound)
      | Some db_booking \<Rightarrow>
          if \<not> is_admin \<and> user_id_str \<noteq> [] \<and> b_user_id db_booking \<noteq> user_id_str
          then (d, Inl Forbidden)
          else if (in_update_data (bu_start_time booking_update)
                   \<or> in_update_data (bu_end_time booking_update)) \<and> \<not> is_admin
                  \<and> \<not> (b_status db_booking = pending \<or> b_status db_booking = confirmed)
          then (d, Inl InvalidTransition)
          else if in_update_data (bu_status booking_update)
                  \<and> bu_status booking_update = Val cancelled \<and> \<not> is_admin
                  \<and> \<not> (b_status db_booking = pending \<or> b_status db_booking = confirmed)
          then (d, Inl InvalidTransition)
          else if in_update_data (bu_start_time booking_update)
                  \<or> in_update_data (bu_end_time booking_update)
          then (case has_time_conflict d (b_service_id db_booking)
                       (update_data_get (bu_start_time booking_update) (b_start_time db_booking))
                       (update_data_get (bu_end_time booking_update) (b_end_time db_booking))
                       (Some booking_id) of
                  None \<Rightarrow> (d, Inl Unavailable)
                | Some True \<Rightarrow> (d, Inl Conflict)
                | Some False \<Rightarrow>
                    update_booking_write d booking_id db_booking booking_update
                      commit_ok refresh_ok)
          else update_booking_write d booking_id db_booking booking_update commit_ok refresh_ok)"


section \<open>Session engine (\<^verbatim>\<open>security/auth.py\<close>, \<^verbatim>\<open>utils/token_blacklist.py\<close>,
  \<^verbatim>\<open>utils/user_app_service.py\<close>)\<close>

text \<open>
  The two library calls the engine makes. \<^verbatim>\<open>jwt.decode\<close> raises \<^verbatim>\<open>JWTError\<close> (\<open>None\<close>) for
  a string that is no JWT, for a signature that does not verify, and for an \<^verbatim>\<open>exp\<close> claim
  earlier than the clock; \<^verbatim>\<open>jwt.get_unverified_claims\<close> only parses.
\<close>

definition jwt_decode :: "datetime \<Rightarrow> token \<Rightarrow> claims option" where
  "jwt_decode now t =
     (case t of
        Malformed _ \<Rightarrow> None
      | JWT payload signature_ok \<Rightarrow>
          if \<not> signature_ok then None
          else (case c_exp payload of
                  None \<Rightarrow> Some payload
                | Some exp \<Rightarrow> if exp < now then None else Some payload))"

definition jwt_get_unverified_claims :: "token \<Rightarrow> claims option" where
  "jwt_get_unverified_claims t =
     (case t of Malformed _ \<Rightarrow> None | JWT payload _ \<Rightarrow> Some payload)"

definition jwt_encode :: "claims \<Rightarrow> token" where
  "jwt_encode to_encode = JWT to_encode True"

text \<open>
  \<^verbatim>\<open>create_access_token\<close> and \<^verbatim>\<open>create_refresh_token\<close>. \<open>dflt\<close> is the lifetime configured in
  the environment (\<^verbatim>\<open>ACCESS_TOKEN_EXPIRE_MINUTES\<close>, \<^verbatim>\<open>REFRESH_TOKEN_EXPIRE_DAYS\<close>) in seconds,
  used when \<^verbatim>\<open>expires_delta\<close> is \<^verbatim>\<open>None\<close> or zero; \<open>new_jti\<close> is \<^verbatim>\<open>str(uuid4())\<close>.
\<close>

definition token_expire :: "datetime \<Rightarrow> int option \<Rightarrow> int \<Rightarrow> datetime" where
  "token_expire now expires_delta dflt =
     (case expires_delta of
        None \<Rightarrow> now + dflt
      | Some delta \<Rightarrow> if delta \<noteq> 0 then now + delta else now + dflt)"

definition create_access_token ::
  "uuid \<Rightarrow> int option \<Rightarrow> int \<Rightarrow> datetime \<Rightarrow> string \<Rightarrow> token \<times> datetime" where
  "create_access_token sub expires_delta dflt now new_jti =
     (let expire = token_expire now expires_delta dflt;
          to_encode = \<lparr> c_sub = Some sub, c_jti = Some new_jti, c_exp = Some expire,
                        c_iat = Some now, c_type = Some ''access'' \<rparr>
      in (jwt_encode to_encode, expire))"

definition create_refresh_token ::
  "uuid \<Rightarrow> int option \<Rightarrow> int \<Rightarrow> datetime \<Rightarrow> string \<Rightarrow> token \<times> datetime" where
  "create_refresh_token sub expires_delta dflt now new_jti =
     (let expire = token_expire now expires_delta dflt;
          to_encode = \<lparr> c_sub = Some sub, c_jti = Some new_jti, c_exp = Some expire,
                        c_iat = Some now, c_type = Some ''refresh'' \<rparr>
      in (jwt_encode to_encode, expire))"

text \<open>\<^verbatim>\<open>TokenBlacklistService.is_token_blacklisted\<close>.\<close>

definition is_token_blacklisted :: "db \<Rightarrow> datetime \<Rightarrow> string \<Rightarrow> bool" where
  "is_token_blacklisted d now jti =
     (find (\<lambda>e. tb_jti e = jti \<and> tb_expires_at e > now) (token_blacklist d) \<noteq> None)"

text \<open>
  The \<^verbatim>\<open>try\<close> block of \<^verbatim>\<open>TokenBlacklistService.blacklist_token\<close>: \<open>None\<close> when it raises
  (the token does not parse, or the commit fails), otherwise the store it leaves.
  \<^verbatim>\<open>if not jti\<close> holds for a missing and for an empty \<^verbatim>\<open>jti\<close>.
\<close>

definition blacklist_token_try :: "db \<Rightarrow> token \<Rightarrow> datetime \<Rightarrow> bool \<Rightarrow> db option" where
  "blacklist_token_try d t expires_at commit_ok =
     (case jwt_get_unverified_claims t of
        None \<Rightarrow> None
      | Some payload \<Rightarrow>
          (case c_jti payload of
             None \<Rightarrow> Some d
           | Some jti \<Rightarrow>
               if jti = [] then Some d
               else (case find (\<lambda>e. tb_jti e = jti) (token_blacklist d) of
                       Some existing \<Rightarrow> Some d
                     | None \<Rightarrow>
                         if commit_ok
                         then Some (d\<lparr>token_blacklist := token_blacklist d @
                                      [\<lparr> tb_jti = jti, tb_token = t,
                                         tb_expires_at = expires_at \<rparr>]\<rparr>)
                         else None)))"

text \<open>
  \<^verbatim>\<open>TokenBlacklistService.blacklist_token\<close>: the \<^verbatim>\<open>except Exception\<close> handler logs, rolls
  back and returns.
\<close>

definition blacklist_token :: "db \<Rightarrow> token \<Rightarrow> datetime \<Rightarrow> bool \<Rightarrow> db" where
  "blacklist_token d t expires_at commit_ok =
     (case blacklist_token_try d t expires_at commit_ok of
        None \<Rightarrow> d
      | Some d2 \<Rightarrow> d2)"

text \<open>\<^verbatim>\<open>TokenBlacklistService.cleanup_expired_tokens\<close>: the store and the returned count.\<close>

definition cleanup_expired_tokens :: "db \<Rightarrow> datetime \<Rightarrow> bool \<Rightarrow> db \<times> nat" where
  "cleanup_expired_tokens d now commit_ok =
     (if commit_ok
      then (d\<lparr>token_blacklist := filter (\<lambda>e. \<not> tb_expires_at e \<le> now) (token_blacklist d)\<rparr>,
            length (filter (\<lambda>e. tb_expires_at e \<le> now) (token_blacklist d)))
      else (d, 0))"

text \<open>
  \<^verbatim>\<open>verify_refresh_token\<close> and \<^verbatim>\<open>get_current_user\<close>; they differ in the expected \<^verbatim>\<open>type\<close>
  claim only. The revocation error is raised inside the \<^verbatim>\<open>try\<close> but is no \<^verbatim>\<open>JWTError\<close>, so
  it reaches the caller.
\<close>

definition verify_token :: "string \<Rightarrow> token \<Rightarrow> db \<Rightarrow> datetime \<Rightarrow> error + User" where
  "verify_token expected_type t d now =
     (case jwt_decode now t of
        None \<Rightarrow> Inl Invalid
      | Some payload \<Rightarrow>
          (case (c_sub payload, c_jti payload) of
             (Some user_id, Some jti) \<Rightarrow>
               if c_type payload \<noteq> Some expected_type then Inl Invalid
               else if is_token_blacklisted d now jti then Inl Revoked
               else (case find (\<lambda>u. u_id u = user_id \<and> u_is_active u) (users d) of
                       None \<Rightarrow> Inl Invalid
                     | Some u \<Rightarrow> Inr u)
           | _ \<Rightarrow> Inl Invalid))"

definition verify_refresh_token :: "token \<Rightarrow> db \<Rightarrow> datetime \<Rightarrow> error + User" where
  "verify_refresh_token t d now = verify_token ''refresh'' t d now"

definition get_current_user :: "token \<Rightarrow> db \<Rightarrow> datetime \<Rightarrow> error + User" where
  "get_current_user t d now = verify_token ''access'' t d now"

text \<open>Truthiness of a token string: only the empty string is false.\<close>

definition token_truthy :: "token \<Rightarrow> bool" where
  "token_truthy t = (t \<noteq> Malformed [])"

text \<open>
  \<^verbatim>\<open>UserService.logout_user\<close>. Three commits: the status change (\<open>commit_status\<close>; its failure
  is rolled back and reported as 500) and one inside each \<^verbatim>\<open>blacklist_token\<close> call. Two
  reads follow commits inside the same \<^verbatim>\<open>try\<close>: \<^verbatim>\<open>db.refresh(user)\<close> (\<open>refresh_ok\<close>) and the
  reload of \<^verbatim>\<open>user.email\<close> for the log line (\<open>reload_ok\<close>); when one fails the handler answers
  500 and what was committed stays.
\<close>

definition logout_user ::
  "db \<Rightarrow> User \<Rightarrow> token \<Rightarrow> datetime \<Rightarrow> token option \<Rightarrow> datetime option
     \<Rightarrow> bool \<Rightarrow> bool \<Rightarrow> bool \<Rightarrow> bool \<Rightarrow> bool \<Rightarrow> db \<times> (error + string)" where
  "logout_user d usr access_token access_expires_at refresh_token refresh_expires_at
       commit_status refresh_ok commit_access commit_refresh reload_ok =
     (if \<not> commit_status then (d, Inl Unavailable)
      else
        (let d1 = d\<lparr>users := map (\<lambda>x. if u_id x = u_id usr then x\<lparr>u_status := inactive\<rparr> else x)
                                  (users d)\<rparr>
         in if \<not> refresh_ok then (d1, Inl Unavailable)
            else
              (let d2 = blacklist_token d1 access_token access_expires_at commit_access;
                   d3 = (case (refresh_token, refresh_expires_at) of
                           (Some r, Some r_exp) \<Rightarrow>
                             if token_truthy r then blacklist_token d2 r r_exp commit_refresh
                             else d2
                         | _ \<Rightarrow> d2)
               in (d3, if reload_ok then Inr ''Successfully logged out''
                       else Inl Unavailable))))"

text \<open>
  \<^verbatim>\<open>UserService.refresh_access_token\<close>. The lifetimes passed are \<^verbatim>\<open>timedelta(minutes=30)\<close> and
  \<^verbatim>\<open>timedelta(days=7)\<close>; \<^verbatim>\<open>datetime.fromtimestamp(None)\<close> raises, which the handler turns
  into 500. After the ledger call \<^verbatim>\<open>user.id\<close> is read again (\<open>reload_ok\<close>); when that fails
  the handler answers 500 and the ledger stays as the call left it.
\<close>

definition refresh_access_token ::
  "db \<Rightarrow> token \<Rightarrow> datetime \<Rightarrow> int \<Rightarrow> int \<Rightarrow> string \<Rightarrow> string \<Rightarrow> bool \<Rightarrow> bool
     \<Rightarrow> db \<times> (error + token \<times> token)" where
  "refresh_access_token d refresh_token now access_dflt refresh_dflt jti_access jti_refresh
       commit_ok reload_ok =
     (case verify_refresh_token refresh_token d now of
        Inl e \<Rightarrow> (d, Inl e)
      | Inr usr \<Rightarrow>
          if \<not> u_is_active usr then (d, Inl Forbidden)
          else (case jwt_get_unverified_claims refresh_token of
                  None \<Rightarrow> (d, Inl Unavailable)
                | Some old_payload \<Rightarrow>
                    (case c_exp old_payload of
                       None \<Rightarrow> (d, Inl Unavailable)
                     | Some old_expires_at \<Rightarrow>
                         (let d2 = blacklist_token d refresh_token old_expires_at commit_ok
                          in if \<not> reload_ok then (d2, Inl Unavailable)
                             else
                               (let access_token =
                                      fst (create_access_token (u_id usr) (Some 1800)
                                             access_dflt now jti_access);
                                    new_refresh =
                                      fst (create_refresh_token (u_id usr) (Some 604800)
                                             refresh_dflt now jti_refresh)
                                in (d2, Inr (access_token, new_refresh)))))))"

section \<open>A concrete store\<close>

text \<open>
  One active service, one user, and booking A of the scheduling scenario: 10:00 to 11:00,
  in seconds, created \<open>pending\<close>.
\<close>

definition demo_service :: Service where
  "demo_service = \<lparr> s_id = ''svc'', s_owner_id = ''owner'', s_is_active = True \<rparr>"

definition demo_user :: User where
  "demo_user = \<lparr> u_id = ''alice'', u_email = ''alice@example.org'', u_status = active,
                  u_role = user, u_is_active = True \<rparr>"

definition booking_A :: Booking where
  "booking_A = \<lparr> b_id = ''A'', b_user_id = ''alice'', b_service_id = ''svc'',
                  b_status = pending, b_start_time = 36000, b_end_time = 39600,
                  b_created_at = 0 \<rparr>"

definition demo_db :: db where
  "demo_db = \<lparr> services = [demo_service], bookings = [booking_A], users = [demo_user],
                token_blacklist = [] \<rparr>"

text \<open>A refresh token and an access token of that user, issued at time 100.\<close>

definition demo_refresh :: token where
  "demo_refresh = fst (create_refresh_token ''alice'' (Some 604800) 604800 100 ''jti-r'')"

definition demo_access :: token where
  "demo_access = fst (create_access_token ''alice'' (Some 1800) 1800 100 ''jti-a'')"

text \<open>A ledger with one expired row and one live row for \<open>demo_access\<close>.\<close>

definition ledger2 :: db where
  "ledger2 = demo_db\<lparr>token_blacklist :=
     [\<lparr> tb_jti = ''old'', tb_token = Malformed ''x'', tb_expires_at = 50 \<rparr>,
      \<lparr> tb_jti = ''jti-a'', tb_token = demo_access, tb_expires_at = 1900 \<rparr>]\<rparr>"

text \<open>
  A string that carries the \<open>jti\<close> of \<open>demo_refresh\<close> and an expiry long past, under a
  signature that does not verify; and the store left by a logout that was handed this
  string as its refresh token (the logout route reads both from unverified claims).
\<close>

definition forged_refresh :: token where
  "forged_refresh = JWT \<lparr> c_sub = None, c_jti = Some ''jti-r'', c_exp = Some 50,
                           c_iat = None, c_type = None \<rparr> False"

definition planted_db :: db where
  "planted_db = fst (logout_user demo_db demo_user demo_access 1900
                       (Some forged_refresh) (Some 50) True True True True True)"

text \<open>A refresh token of that user with a valid signature and an empty \<open>jti\<close>.\<close>

definition empty_jti_refresh :: token where
  "empty_jti_refresh = JWT \<lparr> c_sub = Some ''alice'', c_jti = Some [], c_exp = Some 604900,
                              c_iat = Some 100, c_type = Some ''refresh'' \<rparr> True"

section \<open>Properties of the booking scheduler\<close>

lemmas demo_defs = demo_db_def demo_service_def demo_user_def booking_A_def

lemma three_conditions_iff_overlap:
  fixes s e S E :: int
  assumes "s < e" and "S < E"
  shows "((S \<le> s \<and> s < E) \<or> (S < e \<and> e \<le> E) \<or> (s \<le> S \<and> E \<le> e)) = (s < E \<and> S < e)"
  using assms by arith

lemma has_time_conflict_no_exclusion:
  "has_time_conflict d sid (Some s) (Some e) None =
     Some (\<exists>b \<in> set (bookings d). b_service_id b = sid
        \<and> (b_status b = pending \<or> b_status b = confirmed)
        \<and> time_conflict_condition b s e)"
  by (auto simp: has_time_conflict_def filter_empty_conv)

lemma has_time_conflict_overlap:
  assumes "s < e" and "\<forall>b \<in> set (bookings d). b_start_time b < b_end_time b"
  shows "has_time_conflict d sid (Some s) (Some e) None =
     Some (\<exists>b \<in> set (bookings d). b_service_id b = sid
        \<and> (b_status b = pending \<or> b_status b = confirmed)
        \<and> s < b_end_time b \<and> b_start_time b < e)"
proof -
  have "time_conflict_condition b s e \<longleftrightarrow> s < b_end_time b \<and> b_start_time b < e"
    if "b \<in> set (bookings d)" for b
  proof -
    from that assms(2) have "b_start_time b < b_end_time b" by blast
    from three_conditions_iff_overlap[OF assms(1) this] show ?thesis
      by (simp add: time_conflict_condition_def)
  qed
  then show ?thesis
    unfolding has_time_conflict_no_exclusion by blast
qed

lemma create_booking_found:
  assumes "find (\<lambda>x. s_id x = bc_service_id r \<and> s_is_active x) (services d) = Some svc"
    and "has_time_conflict d (bc_service_id r) (Some (bc_start_time r)) (Some (bc_end_time r)) None
           = Some c"
  shows "create_booking d r uid nid now ok rok =
     (if c then (d, Inl Conflict)
      else if ok then
        (d\<lparr>bookings := bookings d @
             [\<lparr> b_id = nid, b_user_id = uid, b_service_id = bc_service_id r, b_status = pending,
                b_start_time = bc_start_time r, b_end_time = bc_end_time r,
                b_created_at = now \<rparr>]\<rparr>,
         if rok
         then Inr \<lparr> b_id = nid, b_user_id = uid, b_service_id = bc_service_id r,
                    b_status = pending, b_start_time = bc_start_time r,
                    b_end_time = bc_end_time r, b_created_at = now \<rparr>
         else Inl Unavailable)
      else (d, Inl Unavailable))"
  using assms by (simp add: create_booking_def Let_def)


text \<open>
  Claim C1. For a candidate window \<open>[s, e)\<close> with \<open>s < e\<close> and a stored window \<open>[S, E)\<close>
  with \<open>S < E\<close>, the three-condition disjunction of the conflict query holds exactly when
  the windows overlap under half-open semantics (\<open>s < E\<close> and \<open>S < e\<close>). Hence, for an active
  service whose stored windows are all non-empty, \<open>create_booking\<close> answers \<open>Conflict\<close>
  exactly when some \<open>pending\<close> or \<open>confirmed\<close> booking of the same service overlaps the
  request, and otherwise, when the commit goes through, stores the request as a new
  \<open>pending\<close> booking, which it returns when the read after the commit succeeds;
  back-to-back windows do not overlap.
\<close>

theorem conflict_check_is_half_open_overlap:
  assumes "bc_start_time r < bc_end_time r"
    and "\<forall>b \<in> set (bookings d). b_start_time b < b_end_time b"
    and "find (\<lambda>x. s_id x = bc_service_id r \<and> s_is_active x) (services d) = Some svc"
  shows "(\<forall>b. b_start_time b < b_end_time b \<longrightarrow>
            time_conflict_condition b (bc_start_time r) (bc_end_time r)
              = (bc_start_time r < b_end_time b \<and> b_start_time b < bc_end_time r))
       \<and> (snd (create_booking d r uid nid now ok rok) = Inl Conflict)
           = (\<exists>b \<in> set (bookings d). b_service_id b = bc_service_id r
                \<and> (b_status b = pending \<or> b_status b = confirmed)
                \<and> bc_start_time r < b_end_time b \<and> b_start_time b < bc_end_time r)
       \<and> (\<not> (\<exists>b \<in> set (bookings d). b_service_id b = bc_service_id r
                \<and> (b_status b = pending \<or> b_status b = confirmed)
                \<and> bc_start_time r < b_end_time b \<and> b_start_time b < bc_end_time r)
            \<and> ok \<longrightarrow>
           (\<exists>bk. fst (create_booking d r uid nid now ok rok) = d\<lparr>bookings := bookings d @ [bk]\<rparr>
              \<and> (rok \<longrightarrow> snd (create_booking d r uid nid now ok rok) = Inr bk)
              \<and> b_status bk = pending \<and> b_start_time bk = bc_start_time r
              \<and> b_end_time bk = bc_end_time r))"
proof -
  note run = create_booking_found[OF assms(3) has_time_conflict_overlap[OF assms(1) assms(2)],
      of uid nid now ok rok]
  have one: "\<forall>b. b_start_time b < b_end_time b \<longrightarrow>
            time_conflict_condition b (bc_start_time r) (bc_end_time r)
              = (bc_start_time r < b_end_time b \<and> b_start_time b < bc_end_time r)"
    using three_conditions_iff_overlap[OF assms(1)]
    by (simp add: time_conflict_condition_def)
  have two: "(snd (create_booking d r uid nid now ok rok) = Inl Conflict)
           = (\<exists>b \<in> set (bookings d). b_service_id b = bc_service_id r
                \<and> (b_status b = pending \<or> b_status b = confirmed)
                \<and> bc_start_time r < b_end_time b \<and> b_start_time b < bc_end_time r)"
    unfolding run by simp
  have three: "\<not> (\<exists>b \<in> set (bookings d). b_service_id b = bc_service_id r
                \<and> (b_status b = pending \<or> b_status b = confirmed)
                \<and> bc_start_time r < b_end_time b \<and> b_start_time b < bc_end_time r)
            \<and> ok \<longrightarrow>
           (\<exists>bk. fst (create_booking d r uid nid now ok rok) = d\<lparr>bookings := bookings d @ [bk]\<rparr>
              \<and> (rok \<longrightarrow> snd (create_booking d r uid nid now ok rok) = Inr bk)
              \<and> b_status bk = pending \<and> b_start_time bk = bc_start_time r
              \<and> b_end_time bk = bc_end_time r)"
  proof
    let ?bk = "\<lparr> b_id = nid, b_user_id = uid, b_service_id = bc_service_id r,
                  b_status = pending, b_start_time = bc_start_time r,
                  b_end_time = bc_end_time r, b_created_at = now \<rparr>"
    assume "\<not> (\<exists>b \<in> set (bookings d). b_service_id b = bc_service_id r
                \<and> (b_status b = pending \<or> b_status b = confirmed)
                \<and> bc_start_time r < b_end_time b \<and> b_start_time b < bc_end_time r)
            \<and> ok"
    with run have eq: "create_booking d r uid nid now ok rok
        = (d\<lparr>bookings := bookings d @ [?bk]\<rparr>, if rok then Inr ?bk else Inl Unavailable)"
      by simp
    have "fst (create_booking d r uid nid now ok rok) = d\<lparr>bookings := bookings d @ [?bk]\<rparr>
              \<and> (rok \<longrightarrow> snd (create_booking d r uid nid now ok rok) = Inr ?bk)
              \<and> b_status ?bk = pending \<and> b_start_time ?bk = bc_start_time r
              \<and> b_end_time ?bk = bc_end_time r"
      unfolding eq by simp
    then show "\<exists>bk. fst (create_booking d r uid nid now ok rok) = d\<lparr>bookings := bookings d @ [bk]\<rparr>
              \<and> (rok \<longrightarrow> snd (create_booking d r uid nid now ok rok) = Inr bk)
              \<and> b_status bk = pending \<and> b_start_time bk = bc_start_time r
              \<and> b_end_time bk = bc_end_time r"
      by (rule exI)
  qed
  from one two three show ?thesis by (intro conjI)
qed

text \<open>
  The scheduling scenario: with A = [10:00, 11:00) stored, B = [10:30, 11:30) is a conflict
  and the back-to-back C = [11:00, 12:00) is not.
\<close>

theorem conflict_check_is_half_open_overlap_witness:
  "snd (create_booking demo_db
          \<lparr> bc_service_id = ''svc'', bc_start_time = 37800, bc_end_time = 41400 \<rparr>
          ''bob'' ''B'' 0 True True) = Inl Conflict
   \<and> snd (create_booking demo_db
          \<lparr> bc_service_id = ''svc'', bc_start_time = 39600, bc_end_time = 43200 \<rparr>
          ''bob'' ''C'' 0 True True) \<noteq> Inl Conflict"
proof -
  have inv: "\<forall>b \<in> set (bookings demo_db). b_start_time b < b_end_time b"
    by (simp add: demo_defs)
  have svc: "find (\<lambda>x. s_id x = ''svc'' \<and> s_is_active x) (services demo_db) = Some demo_service"
    by (simp add: demo_defs)
  have B: "snd (create_booking demo_db
          \<lparr> bc_service_id = ''svc'', bc_start_time = 37800, bc_end_time = 41400 \<rparr>
          ''bob'' ''B'' 0 True True) = Inl Conflict"
    using conflict_check_is_half_open_overlap
      [of "\<lparr> bc_service_id = ''svc'', bc_start_time = 37800, bc_end_time = 41400 \<rparr>"
          demo_db demo_service "''bob''" "''B''" 0 True True]
      inv svc by (simp add: demo_defs)
  have C: "snd (create_booking demo_db
          \<lparr> bc_service_id = ''svc'', bc_start_time = 39600, bc_end_time = 43200 \<rparr>
          ''bob'' ''C'' 0 True True) \<noteq> Inl Conflict"
    using conflict_check_is_half_open_overlap
      [of "\<lparr> bc_service_id = ''svc'', bc_start_time = 39600, bc_end_time = 43200 \<rparr>"
          demo_db demo_service "''bob''" "''C''" 0 True True]
      inv svc by (simp add: demo_defs)
  from B C show ?thesis by simp
qed

lemma create_booking_route_cases:
  "create_booking_route d body uid nid now ok rok =
     (if instant (body_start_time body) \<le> now then (d, Inl InvalidInterval)
      else (case body_end_time body of
              Naive e \<Rightarrow> (d, Inl Unavailable)
            | Aware e \<Rightarrow>
                if e \<le> instant (body_start_time body) then (d, Inl InvalidInterval)
                else create_booking d
                       \<lparr> bc_service_id = body_service_id body,
                         bc_start_time = instant (body_start_time body), bc_end_time = e \<rparr>
                       uid nid now ok rok))"
  by (cases "body_start_time body"; cases "body_end_time body")
     (simp_all add: create_booking_route_def BookingCreate_validate_def
        start_time_must_be_in_future_def end_time_must_be_after_start_time_def
        replace_tzinfo_utc_def Let_def)



text \<open>
  Claim C8, on the code. Two requests for the active service whose times are sent without
  a UTC offset, the start in the future. In the first the end is before the start; in the
  second the window is valid and free. The field validator makes the start aware, the
  model validator compares the offset-less end with it, and the resulting \<^verbatim>\<open>TypeError\<close>
  ends both requests as 500: the first is not answered \<open>InvalidInterval\<close>, the second is
  not stored.
\<close>

theorem offsetless_end_time_is_unavailable:
  "create_booking_route demo_db
      \<lparr> body_service_id = ''svc'', body_start_time = Naive 50000, body_end_time = Naive 40000 \<rparr>
      ''bob'' ''D'' 7200 True True = (demo_db, Inl Unavailable)
   \<and> create_booking_route demo_db
      \<lparr> body_service_id = ''svc'', body_start_time = Naive 50000, body_end_time = Naive 53600 \<rparr>
      ''bob'' ''E'' 7200 True True = (demo_db, Inl Unavailable)"
  by (simp add: create_booking_route_cases)

lemma setattr_if_not_none_simps:
  "setattr_if_not_none Unset old = old"
  "setattr_if_not_none Null old = old"
  "setattr_if_not_none (Val v) old = v"
  by (simp_all add: setattr_if_not_none_def)

lemma has_time_conflict_None:
  "(has_time_conflict d sid a b x = None) = (a = None \<or> b = None)"
  by (auto simp: has_time_conflict_def Let_def split: option.splits)

lemma update_data_get_None: "(update_data_get f dflt = None) = (f = Null)"
  by (simp add: update_data_get_def split: field.splits)

lemma update_booking_write_Inr:
  assumes "update_booking_write d bid b p ok rok = (d2, Inr b2)"
  shows "b2 = b\<lparr> b_start_time := setattr_if_not_none (bu_start_time p) (b_start_time b),
                  b_end_time := setattr_if_not_none (bu_end_time p) (b_end_time b),
                  b_status := setattr_if_not_none (bu_status p) (b_status b) \<rparr>
         \<and> d2 = d\<lparr>bookings := write_row bid b2 (bookings d)\<rparr>"
  using assms by (auto simp: update_booking_write_def Let_def split: if_splits)


lemma update_booking_Inr:
  assumes "update_booking d bid p uid adm ok rok = (d2, Inr b2)"
  shows "\<exists>b. find (\<lambda>x. b_id x = bid) (bookings d) = Some b
           \<and> b2 = b\<lparr> b_start_time := setattr_if_not_none (bu_start_time p) (b_start_time b),
                      b_end_time := setattr_if_not_none (bu_end_time p) (b_end_time b),
                      b_status := setattr_if_not_none (bu_status p) (b_status b) \<rparr>
           \<and> d2 = d\<lparr>bookings := write_row bid b2 (bookings d)\<rparr>
           \<and> bu_start_time p \<noteq> Null \<and> bu_end_time p \<noteq> Null"
proof (cases "find (\<lambda>x. b_id x = bid) (bookings d)")
  case None
  with assms show ?thesis by (simp add: update_booking_def)
next
  case (Some b)
  let ?h = "has_time_conflict d (b_service_id b)
              (update_data_get (bu_start_time p) (b_start_time b))
              (update_data_get (bu_end_time p) (b_end_time b)) (Some bid)"
  show ?thesis
  proof (cases "in_update_data (bu_start_time p) \<or> in_update_data (bu_end_time p)")
    case True
    with assms Some have h: "?h = Some False"
      and w: "update_booking_write d bid b p ok rok = (d2, Inr b2)"
      by (auto simp: update_booking_def Let_def split: if_splits option.splits bool.splits)
    from h have "?h \<noteq> None" by simp
    then have "bu_start_time p \<noteq> Null \<and> bu_end_time p \<noteq> Null"
      by (simp add: has_time_conflict_None update_data_get_None)
    with update_booking_write_Inr[OF w] Some show ?thesis by simp
  next
    case False
    then have "bu_start_time p \<noteq> Null \<and> bu_end_time p \<noteq> Null"
      by (auto simp: in_update_data_def)
    moreover from False assms Some
    have "update_booking_write d bid b p ok rok = (d2, Inr b2)"
      by (auto simp: update_booking_def Let_def split: if_splits)
    ultimately show ?thesis using update_booking_write_Inr Some by simp
  qed
qed


lemma update_booking_null_time:
  assumes "bu_start_time p = Null \<or> bu_end_time p = Null"
  shows "fst (update_booking d bid p uid adm ok rok) = d
       \<and> (\<exists>e. snd (update_booking d bid p uid adm ok rok) = Inl e)"
proof (cases "find (\<lambda>x. b_id x = bid) (bookings d)")
  case None
  then show ?thesis by (simp add: update_booking_def)
next
  case (Some b)
  from assms have k: "in_update_data (bu_start_time p) \<or> in_update_data (bu_end_time p)"
    by (auto simp: in_update_data_def)
  from assms have "has_time_conflict d (b_service_id b)
              (update_data_get (bu_start_time p) (b_start_time b))
              (update_data_get (bu_end_time p) (b_end_time b)) (Some bid) = None"
    by (simp add: has_time_conflict_None update_data_get_None)
  with Some k show ?thesis
    by (simp add: update_booking_def Let_def)
qed

text \<open>
  Claim C3, on the code. The owner of the pending booking A, who is no admin, asks for
  status \<open>completed\<close>: the update is carried out. Only a request for \<open>cancelled\<close> is checked
  against the current status; no branch rejects another status asked for by a non-admin.
\<close>

theorem non_admin_sets_completed:
  "update_booking demo_db ''A''
     \<lparr> bu_start_time = Unset, bu_end_time = Unset, bu_status = Val completed \<rparr>
     (Some ''alice'') False True True
   = (demo_db\<lparr>bookings := [booking_A\<lparr>b_status := completed\<rparr>]\<rparr>,
      Inr (booking_A\<lparr>b_status := completed\<rparr>))"
  by (simp add: update_booking_def update_booking_write_def str_of_id_def in_update_data_def
        Let_def setattr_if_not_none_simps demo_defs)

text \<open>
  Claim C10. A successful update returns the stored booking with \<open>id\<close>, \<open>user_id\<close>,
  \<open>service_id\<close> and \<open>created_at\<close> as they were; each of start, end and status is the patch's
  value when the patch gives one, and is the previous value when the patch leaves the
  field out or sends it as null. The store changes in that one booking row only. A patch
  that sends the start or the end as null never succeeds: the call ends with an error and
  the store, hence the field, is as it was.
\<close>

theorem update_booking_changes_only_given_fields:
  "(\<forall>d2 b2. update_booking d bid p uid adm ok rok = (d2, Inr b2) \<longrightarrow>
      (\<exists>b. find (\<lambda>x. b_id x = bid) (bookings d) = Some b
         \<and> b_id b2 = b_id b \<and> b_user_id b2 = b_user_id b
         \<and> b_service_id b2 = b_service_id b \<and> b_created_at b2 = b_created_at b
         \<and> (bu_start_time p = Null \<or> bu_start_time p = Unset \<longrightarrow> b_start_time b2 = b_start_time b)
         \<and> (bu_end_time p = Null \<or> bu_end_time p = Unset \<longrightarrow> b_end_time b2 = b_end_time b)
         \<and> (bu_status p = Null \<or> bu_status p = Unset \<longrightarrow> b_status b2 = b_status b)
         \<and> (\<forall>v. bu_start_time p = Val v \<longrightarrow> b_start_time b2 = v)
         \<and> (\<forall>v. bu_end_time p = Val v \<longrightarrow> b_end_time b2 = v)
         \<and> (\<forall>v. bu_status p = Val v \<longrightarrow> b_status b2 = v)
         \<and> bookings d2 = write_row bid b2 (bookings d)
         \<and> services d2 = services d \<and> users d2 = users d
         \<and> token_blacklist d2 = token_blacklist d))
   \<and> (bu_start_time p = Null \<or> bu_end_time p = Null \<longrightarrow>
        fst (update_booking d bid p uid adm ok rok) = d
        \<and> (\<exists>e. snd (update_booking d bid p uid adm ok rok) = Inl e))"
proof -
  have one: "\<exists>b. find (\<lambda>x. b_id x = bid) (bookings d) = Some b
         \<and> b_id b2 = b_id b \<and> b_user_id b2 = b_user_id b
         \<and> b_service_id b2 = b_service_id b \<and> b_created_at b2 = b_created_at b
         \<and> (bu_start_time p = Null \<or> bu_start_time p = Unset \<longrightarrow> b_start_time b2 = b_start_time b)
         \<and> (bu_end_time p = Null \<or> bu_end_time p = Unset \<longrightarrow> b_end_time b2 = b_end_time b)
         \<and> (bu_status p = Null \<or> bu_status p = Unset \<longrightarrow> b_status b2 = b_status b)
         \<and> (\<forall>v. bu_start_time p = Val v \<longrightarrow> b_start_time b2 = v)
         \<and> (\<forall>v. bu_end_time p = Val v \<longrightarrow> b_end_time b2 = v)
         \<and> (\<forall>v. bu_status p = Val v \<longrightarrow> b_status b2 = v)
         \<and> bookings d2 = write_row bid b2 (bookings d)
         \<and> services d2 = services d \<and> users d2 = users d
         \<and> token_blacklist d2 = token_blacklist d"
    if run: "update_booking d bid p uid adm ok rok = (d2, Inr b2)" for d2 b2
  proof -
    from update_booking_Inr[OF run] obtain b where
      f: "find (\<lambda>x. b_id x = bid) (bookings d) = Some b" and
      b2: "b2 = b\<lparr> b_start_time := setattr_if_not_none (bu_start_time p) (b_start_time b),
                   b_end_time := setattr_if_not_none (bu_end_time p) (b_end_time b),
                   b_status := setattr_if_not_none (bu_status p) (b_status b) \<rparr>" and
      d2: "d2 = d\<lparr>bookings := write_row bid b2 (bookings d)\<rparr>"
      by blast
    have "b_id b2 = b_id b \<and> b_user_id b2 = b_user_id b
       \<and> b_service_id b2 = b_service_id b \<and> b_created_at b2 = b_created_at b"
      by (simp add: b2)
    moreover have "(bu_start_time p = Null \<or> bu_start_time p = Unset \<longrightarrow> b_start_time b2 = b_start_time b)
       \<and> (bu_end_time p = Null \<or> bu_end_time p = Unset \<longrightarrow> b_end_time b2 = b_end_time b)
       \<and> (bu_status p = Null \<or> bu_status p = Unset \<longrightarrow> b_status b2 = b_status b)"
      by (auto simp: b2 setattr_if_not_none_simps)
    moreover have "(\<forall>v. bu_start_time p = Val v \<longrightarrow> b_start_time b2 = v)
       \<and> (\<forall>v. bu_end_time p = Val v \<longrightarrow> b_end_time b2 = v)
       \<and> (\<forall>v. bu_status p = Val v \<longrightarrow> b_status b2 = v)"
      by (auto simp: b2 setattr_if_not_none_simps)
    moreover have "bookings d2 = write_row bid b2 (bookings d)
       \<and> services d2 = services d \<and> users d2 = users d
       \<and> token_blacklist d2 = token_blacklist d"
      by (simp add: d2)
    ultimately show ?thesis using f by blast
  qed
  have two: "bu_start_time p = Null \<or> bu_end_time p = Null \<longrightarrow>
        fst (update_booking d bid p uid adm ok rok) = d
        \<and> (\<exists>e. snd (update_booking d bid p uid adm ok rok) = Inl e)"
    using update_booking_null_time by blast
  from one two show ?thesis by blast
qed

text \<open>
  The owner moves the end of booking A to 11:30 with a patch whose status is sent as
  null: the booking keeps its start and its status and gets the new end. The same patch
  with the start sent as null ends as 500 and leaves the store as it was.
\<close>

theorem update_booking_changes_only_given_fields_witness:
  "update_booking demo_db ''A''
     \<lparr> bu_start_time = Unset, bu_end_time = Val 41400, bu_status = Null \<rparr>
     (Some ''alice'') False True True
   = (demo_db\<lparr>bookings := [booking_A\<lparr>b_end_time := 41400\<rparr>]\<rparr>,
      Inr (booking_A\<lparr>b_end_time := 41400\<rparr>))
   \<and> b_status (booking_A\<lparr>b_end_time := 41400\<rparr>) = b_status booking_A
   \<and> b_start_time (booking_A\<lparr>b_end_time := 41400\<rparr>) = b_start_time booking_A
   \<and> fst (update_booking demo_db ''A''
        \<lparr> bu_start_time = Null, bu_end_time = Val 41400, bu_status = Null \<rparr>
        (Some ''alice'') False True True) = demo_db"
proof -
  have run: "update_booking demo_db ''A''
     \<lparr> bu_start_time = Unset, bu_end_time = Val 41400, bu_status = Null \<rparr>
     (Some ''alice'') False True True
   = (demo_db\<lparr>bookings := [booking_A\<lparr>b_end_time := 41400\<rparr>]\<rparr>,
      Inr (booking_A\<lparr>b_end_time := 41400\<rparr>))"
    by (simp add: update_booking_def update_booking_write_def str_of_id_def in_update_data_def
          Let_def setattr_if_not_none_simps update_data_get_def has_time_conflict_def demo_defs)
  note T = update_booking_changes_only_given_fields
      [of demo_db "''A''" "\<lparr> bu_start_time = Unset, bu_end_time = Val 41400, bu_status = Null \<rparr>"
          "Some ''alice''" False True True]
  from T[THEN conjunct1, rule_format, OF run]
  have keep: "b_status (booking_A\<lparr>b_end_time := 41400\<rparr>) = b_status booking_A
      \<and> b_start_time (booking_A\<lparr>b_end_time := 41400\<rparr>) = b_start_time booking_A"
    by (simp add: demo_defs)
  from update_booking_changes_only_given_fields
      [of demo_db "''A''" "\<lparr> bu_start_time = Null, bu_end_time = Val 41400, bu_status = Null \<rparr>"
          "Some ''alice''" False True True]
  have null: "fst (update_booking demo_db ''A''
        \<lparr> bu_start_time = Null, bu_end_time = Val 41400, bu_status = Null \<rparr>
        (Some ''alice'') False True True) = demo_db"
    by simp
  from run keep null show ?thesis by simp
qed

section \<open>Properties of the session engine\<close>

lemma find_append_Some:
  "find P xs = Some x \<Longrightarrow> find P (xs @ ys) = Some x"
  by (induction xs) auto

lemma find_append_None:
  "find P xs = None \<Longrightarrow> find P (xs @ ys) = find P ys"
  by (induction xs) (auto split: if_splits)

lemma find_filter_implied:
  "(\<And>x. P x \<Longrightarrow> Q x) \<Longrightarrow> find P (filter Q xs) = find P xs"
  by (induction xs) auto

lemma blacklist_token_cases:
  "blacklist_token d t e ok =
     (case t of
        Malformed _ \<Rightarrow> d
      | JWT c _ \<Rightarrow>
          (case c_jti c of
             None \<Rightarrow> d
           | Some j \<Rightarrow>
               if j = [] \<or> find (\<lambda>x. tb_jti x = j) (token_blacklist d) \<noteq> None \<or> \<not> ok then d
               else d\<lparr>token_blacklist := token_blacklist d @
                        [\<lparr> tb_jti = j, tb_token = t, tb_expires_at = e \<rparr>]\<rparr>))"
  by (auto simp: blacklist_token_def blacklist_token_try_def jwt_get_unverified_claims_def
        split: token.splits option.splits)

text \<open>
  Claim C6. Revoking is idempotent: once a revocation has gone through, revoking the same
  token again, with any expiry and whatever the outcome of its commit, leaves the ledger
  as the first revocation left it; and under one and the same commit outcome two
  revocations leave what one leaves. The operation has no error result.
\<close>

theorem blacklist_token_idempotent:
  "blacklist_token (blacklist_token d t e True) t e2 ok2 = blacklist_token d t e True
   \<and> blacklist_token (blacklist_token d t e ok) t e ok = blacklist_token d t e ok"
proof (cases t)
  case (Malformed s)
  then show ?thesis by (simp add: blacklist_token_cases)
next
  case (JWT c sg)
  show ?thesis
  proof (cases "c_jti c")
    case None
    with JWT show ?thesis by (simp add: blacklist_token_cases)
  next
    case (Some j)
    show ?thesis
    proof (cases "find (\<lambda>x. tb_jti x = j) (token_blacklist d)")
      case None
      with JWT Some show ?thesis
        by (simp add: blacklist_token_cases find_append_None)
    next
      case (Some x)
      with JWT \<open>c_jti c = Some j\<close> show ?thesis
        by (simp add: blacklist_token_cases)
    qed
  qed
qed

text \<open>
  Claim C7. A purge whose commit goes through removes exactly the ledger rows whose expiry
  is at or before the clock and returns their number; a purge whose commit fails removes
  nothing and returns 0; the other tables are untouched. A revocation check made at the
  time of the purge or later gives the same answer with and without the purge, for every
  \<open>jti\<close>.
\<close>

theorem cleanup_keeps_revocation_checks:
  "token_blacklist (fst (cleanup_expired_tokens d now True))
     = filter (\<lambda>e. now < tb_expires_at e) (token_blacklist d)
   \<and> snd (cleanup_expired_tokens d now True)
     = length (filter (\<lambda>e. tb_expires_at e \<le> now) (token_blacklist d))
   \<and> cleanup_expired_tokens d now False = (d, 0)
   \<and> bookings (fst (cleanup_expired_tokens d now ok)) = bookings d
   \<and> users (fst (cleanup_expired_tokens d now ok)) = users d
   \<and> services (fst (cleanup_expired_tokens d now ok)) = services d
   \<and> (now \<le> now2 \<longrightarrow>
        is_token_blacklisted (fst (cleanup_expired_tokens d now ok)) now2 jti
          = is_token_blacklisted d now2 jti)"
proof -
  have a: "token_blacklist (fst (cleanup_expired_tokens d now True))
     = filter (\<lambda>e. now < tb_expires_at e) (token_blacklist d)"
    by (simp add: cleanup_expired_tokens_def not_le)
  have b: "snd (cleanup_expired_tokens d now True)
     = length (filter (\<lambda>e. tb_expires_at e \<le> now) (token_blacklist d))"
    by (simp add: cleanup_expired_tokens_def)
  have c: "cleanup_expired_tokens d now False = (d, 0)"
    by (simp add: cleanup_expired_tokens_def)
  have f: "bookings (fst (cleanup_expired_tokens d now ok)) = bookings d
   \<and> users (fst (cleanup_expired_tokens d now ok)) = users d
   \<and> services (fst (cleanup_expired_tokens d now ok)) = services d"
    by (simp add: cleanup_expired_tokens_def)
  have g: "now \<le> now2 \<longrightarrow>
        is_token_blacklisted (fst (cleanup_expired_tokens d now ok)) now2 jti
          = is_token_blacklisted d now2 jti"
  proof
    assume le: "now \<le> now2"
    have "find (\<lambda>e. tb_jti e = jti \<and> now2 < tb_expires_at e)
            (filter (\<lambda>e. \<not> tb_expires_at e \<le> now) (token_blacklist d))
          = find (\<lambda>e. tb_jti e = jti \<and> now2 < tb_expires_at e) (token_blacklist d)"
      using le by (intro find_filter_implied) simp
    then show "is_token_blacklisted (fst (cleanup_expired_tokens d now ok)) now2 jti
          = is_token_blacklisted d now2 jti"
      by (simp add: is_token_blacklisted_def cleanup_expired_tokens_def)
  qed
  from a b c f g show ?thesis by (intro conjI) simp_all
qed

text \<open>
  A ledger with one expired and one live row, purged at time 100: the live row stays and
  is still reported as revoked at time 200.
\<close>

theorem cleanup_keeps_revocation_checks_witness:
  "(100::int) \<le> 200
   \<and> is_token_blacklisted (fst (cleanup_expired_tokens ledger2 100 True)) 200 ''jti-a''
   \<and> snd (cleanup_expired_tokens ledger2 100 True) = 1"
proof -
  have "is_token_blacklisted ledger2 200 ''jti-a''"
    by (simp add: is_token_blacklisted_def ledger2_def)
  moreover have "snd (cleanup_expired_tokens ledger2 100 True) = 1"
    using cleanup_keeps_revocation_checks[of ledger2 100 True 200 "''jti-a''"]
    by (simp add: ledger2_def)
  ultimately show ?thesis
    using cleanup_keeps_revocation_checks[of ledger2 100 True 200 "''jti-a''"]
    by simp
qed

lemma is_token_blacklisted_iff:
  "is_token_blacklisted d now j
     = (\<exists>e \<in> set (token_blacklist d). tb_jti e = j \<and> now < tb_expires_at e)"
  by (auto simp: is_token_blacklisted_def find_None_iff)

lemma blacklist_token_frame:
  "users (blacklist_token d t e ok) = users d
   \<and> bookings (blacklist_token d t e ok) = bookings d
   \<and> services (blacklist_token d t e ok) = services d
   \<and> set (token_blacklist d) \<subseteq> set (token_blacklist (blacklist_token d t e ok))"
  by (auto simp: blacklist_token_cases split: token.splits option.splits)

lemma blacklist_token_inserts:
  assumes "jwt_get_unverified_claims t = Some c" and "c_jti c = Some j" and "j \<noteq> []"
    and "find (\<lambda>x. tb_jti x = j) (token_blacklist d) = None"
  shows "blacklist_token d t e True
           = d\<lparr>token_blacklist := token_blacklist d @
                  [\<lparr> tb_jti = j, tb_token = t, tb_expires_at = e \<rparr>]\<rparr>"
  using assms
  by (auto simp: blacklist_token_cases jwt_get_unverified_claims_def split: token.splits)

lemma blacklist_token_commit_failed: "blacklist_token d t e False = d"
  by (auto simp: blacklist_token_cases split: token.splits option.splits)

lemma verify_token_Inr:
  assumes "verify_token ty t d now = Inr usr"
  shows "\<exists>c s j. t = JWT c True \<and> c_sub c = Some s \<and> c_jti c = Some j \<and> c_type c = Some ty
           \<and> (\<forall>x. c_exp c = Some x \<longrightarrow> now \<le> x)
           \<and> \<not> is_token_blacklisted d now j
           \<and> find (\<lambda>u. u_id u = s \<and> u_is_active u) (users d) = Some usr"
  using assms
  by (auto simp: verify_token_def jwt_decode_def
        split: token.splits option.splits if_splits)

lemma verify_token_revoked:
  assumes "t = JWT c True" and "c_sub c = Some s" and "c_jti c = Some j"
    and "c_type c = Some ty" and "c_exp c = Some x" and "now \<le> x"
    and "is_token_blacklisted d now j"
  shows "verify_token ty t d now = Inl Revoked"
  using assms by (simp add: verify_token_def jwt_decode_def)

lemma verify_token_ok:
  assumes "t = JWT c True" and "c_sub c = Some s" and "c_jti c = Some j"
    and "c_type c = Some ty" and "c_exp c = Some x" and "now \<le> x"
    and "\<not> is_token_blacklisted d now j"
    and "find (\<lambda>u. u_id u = s \<and> u_is_active u) (users d) = Some usr"
  shows "verify_token ty t d now = Inr usr"
  using assms by (simp add: verify_token_def jwt_decode_def)

lemma refresh_access_token_verified:
  assumes "verify_refresh_token r d now = Inr usr"
    and "jwt_get_unverified_claims r = Some c" and "c_exp c = Some x"
  shows "refresh_access_token d r now ad rd ja jr ok rl =
     (blacklist_token d r x ok,
      if rl
      then Inr (fst (create_access_token (u_id usr) (Some 1800) ad now ja),
                fst (create_refresh_token (u_id usr) (Some 604800) rd now jr))
      else Inl Unavailable)"
proof -
  from verify_token_Inr[OF assms(1)[unfolded verify_refresh_token_def]]
  have "u_is_active usr" by (auto simp: find_Some_iff)
  with assms show ?thesis
    by (simp add: refresh_access_token_def Let_def)
qed





lemma create_access_token_eq:
  "create_access_token u delta dflt now j =
     (JWT \<lparr> c_sub = Some u, c_jti = Some j, c_exp = Some (token_expire now delta dflt),
             c_iat = Some now, c_type = Some ''access'' \<rparr> True,
      token_expire now delta dflt)"
  by (simp add: create_access_token_def jwt_encode_def Let_def)

lemma create_refresh_token_eq:
  "create_refresh_token u delta dflt now j =
     (JWT \<lparr> c_sub = Some u, c_jti = Some j, c_exp = Some (token_expire now delta dflt),
             c_iat = Some now, c_type = Some ''refresh'' \<rparr> True,
      token_expire now delta dflt)"
  by (simp add: create_refresh_token_def jwt_encode_def Let_def)

lemma blacklist_token_users_irrelevant:
  "token_blacklist (blacklist_token (d\<lparr>users := us\<rparr>) t e ok)
     = token_blacklist (blacklist_token d t e ok)"
  by (auto simp: blacklist_token_cases split: token.splits option.splits)

lemma logout_user_ledger:
  "set (token_blacklist (blacklist_token d a ae ca))
     \<subseteq> set (token_blacklist (fst (logout_user d usr a ae rt re True True ca cr rl)))"
proof -
  let ?d1 = "d\<lparr>users := map (\<lambda>x. if u_id x = u_id usr then x\<lparr>u_status := inactive\<rparr> else x)
                             (users d)\<rparr>"
  let ?d2 = "blacklist_token ?d1 a ae ca"
  have keep: "set (token_blacklist ?d2) \<subseteq> set (token_blacklist (blacklist_token ?d2 r x cr))"
    for r x
    using blacklist_token_frame[of ?d2 r x cr] by simp
  have "fst (logout_user d usr a ae rt re True True ca cr rl) = ?d2
        \<or> (\<exists>r x. fst (logout_user d usr a ae rt re True True ca cr rl)
                    = blacklist_token ?d2 r x cr)"
    by (auto simp: logout_user_def Let_def split: option.splits)
  then have "set (token_blacklist ?d2)
      \<subseteq> set (token_blacklist (fst (logout_user d usr a ae rt re True True ca cr rl)))"
  proof (elim disjE exE)
    assume e: "fst (logout_user d usr a ae rt re True True ca cr rl) = ?d2"
    show ?thesis unfolding e by simp
  next
    fix r x
    assume e: "fst (logout_user d usr a ae rt re True True ca cr rl)
                 = blacklist_token ?d2 r x cr"
    show ?thesis unfolding e by (rule keep)
  qed
  then show ?thesis by (simp add: blacklist_token_users_irrelevant)
qed

text \<open>
  Claim C5. Let \<open>u\<close> resolve to an active user, and let the access token be issued for \<open>u\<close>
  with a fresh, non-empty \<open>jti\<close> (one the ledger does not hold). At any time before the
  token's expiry, verifying the token returns that user, whose id is \<open>u\<close>; and once a
  logout whose ledger write went through has revoked the token, the same verification
  fails with \<open>Revoked\<close>.
\<close>

theorem access_token_round_trip:
  assumes "find (\<lambda>x. u_id x = u \<and> u_is_active x) (users d) = Some usr"
    and "create_access_token u delta dflt now j = (tok, expire)"
    and "j \<noteq> []"
    and "find (\<lambda>e. tb_jti e = j) (token_blacklist d) = None"
    and "now2 < expire"
  shows "get_current_user tok d now2 = Inr usr \<and> u_id usr = u
       \<and> get_current_user tok
           (fst (logout_user d usr tok expire rt re True True True cr rl)) now2
           = Inl Revoked"
proof -
  define c where "c = \<lparr> c_sub = Some u, c_jti = Some j, c_exp = Some expire,
                         c_iat = Some now, c_type = Some ''access'' \<rparr>"
  from assms(2) have tok: "tok = JWT c True"
    by (auto simp: create_access_token_eq c_def)
  have cs: "c_sub c = Some u" "c_jti c = Some j" "c_type c = Some ''access''"
    "c_exp c = Some expire"
    by (simp_all add: c_def)
  from assms(5) have le: "now2 \<le> expire" by simp
  from assms(4) have fresh: "\<not> is_token_blacklisted d now2 j"
    by (auto simp: is_token_blacklisted_iff find_None_iff)
  have one: "get_current_user tok d now2 = Inr usr"
    unfolding get_current_user_def
    by (rule verify_token_ok[OF tok cs(1) cs(2) cs(3) cs(4) le fresh assms(1)])
  from assms(1) have two: "u_id usr = u" by (auto simp: find_Some_iff)
  let ?d3 = "fst (logout_user d usr tok expire rt re True True True cr rl)"
  have "jwt_get_unverified_claims tok = Some c"
    by (simp add: tok jwt_get_unverified_claims_def)
  from blacklist_token_inserts[OF this cs(2) assms(3) assms(4), of expire]
  have "\<lparr> tb_jti = j, tb_token = tok, tb_expires_at = expire \<rparr>
          \<in> set (token_blacklist (blacklist_token d tok expire True))"
    by simp
  with logout_user_ledger[of d tok expire True usr rt re cr rl]
  have "\<lparr> tb_jti = j, tb_token = tok, tb_expires_at = expire \<rparr> \<in> set (token_blacklist ?d3)"
    by blast
  with assms(5) have "is_token_blacklisted ?d3 now2 j"
    unfolding is_token_blacklisted_iff by force
  from verify_token_revoked[OF tok cs(1) cs(2) cs(3) cs(4) le this]
  have three: "get_current_user tok ?d3 now2 = Inl Revoked"
    by (simp add: get_current_user_def)
  from one two three show ?thesis by simp
qed

text \<open>
  The access token issued to alice at time 100 for 30 minutes verifies at time 200 and,
  after her logout, is reported as revoked.
\<close>

theorem access_token_round_trip_witness:
  "get_current_user demo_access demo_db 200 = Inr demo_user
   \<and> get_current_user demo_access
        (fst (logout_user demo_db demo_user demo_access 1900 None None
                True True True True True)) 200
       = Inl Revoked"
proof -
  have u: "find (\<lambda>x. u_id x = ''alice'' \<and> u_is_active x) (users demo_db) = Some demo_user"
    by (simp add: demo_defs)
  have t: "create_access_token ''alice'' (Some 1800) 1800 100 ''jti-a'' = (demo_access, 1900)"
    by (simp add: demo_access_def create_access_token_eq token_expire_def)
  have j: "''jti-a'' \<noteq> []" by simp
  have l: "find (\<lambda>e. tb_jti e = ''jti-a'') (token_blacklist demo_db) = None"
    by (simp add: demo_defs)
  have n: "(200::int) < 1900" by simp
  from access_token_round_trip[OF u t j l n, of None None True True]
  show ?thesis by simp
qed

lemma demo_refresh_eq:
  "demo_refresh = JWT \<lparr> c_sub = Some ''alice'', c_jti = Some ''jti-r'', c_exp = Some 604900,
                         c_iat = Some 100, c_type = Some ''refresh'' \<rparr> True"
  by (simp add: demo_refresh_def create_refresh_token_eq token_expire_def)

lemma demo_access_eq:
  "demo_access = JWT \<lparr> c_sub = Some ''alice'', c_jti = Some ''jti-a'', c_exp = Some 1900,
                        c_iat = Some 100, c_type = Some ''access'' \<rparr> True"
  by (simp add: demo_access_def create_access_token_eq token_expire_def)

lemma demo_refresh_claims:
  "jwt_get_unverified_claims demo_refresh
     = Some \<lparr> c_sub = Some ''alice'', c_jti = Some ''jti-r'', c_exp = Some 604900,
              c_iat = Some 100, c_type = Some ''refresh'' \<rparr>"
  by (simp add: demo_refresh_eq jwt_get_unverified_claims_def)

lemma demo_refresh_verifies:
  "verify_refresh_token demo_refresh demo_db now
     = (if now \<le> 604900 then Inr demo_user else Inl Invalid)"
  by (simp add: verify_refresh_token_def verify_token_def jwt_decode_def demo_refresh_eq
        is_token_blacklisted_def demo_defs)

lemma planted_db_eq:
  "planted_db = demo_db\<lparr> users := [demo_user\<lparr>u_status := inactive\<rparr>],
       token_blacklist :=
         [\<lparr> tb_jti = ''jti-a'', tb_token = demo_access, tb_expires_at = 1900 \<rparr>,
          \<lparr> tb_jti = ''jti-r'', tb_token = forged_refresh, tb_expires_at = 50 \<rparr>] \<rparr>"
proof -
  let ?d1 = "demo_db\<lparr>users := [demo_user\<lparr>u_status := inactive\<rparr>]\<rparr>"
  let ?d2 = "?d1\<lparr>token_blacklist :=
               [\<lparr> tb_jti = ''jti-a'', tb_token = demo_access, tb_expires_at = 1900 \<rparr>]\<rparr>"
  have a: "blacklist_token ?d1 demo_access 1900 True = ?d2"
    by (simp add: blacklist_token_cases demo_access_eq demo_db_def)
  have b: "blacklist_token ?d2 forged_refresh 50 True
      = ?d2\<lparr>token_blacklist := token_blacklist ?d2 @
               [\<lparr> tb_jti = ''jti-r'', tb_token = forged_refresh, tb_expires_at = 50 \<rparr>]\<rparr>"
    by (simp add: blacklist_token_cases forged_refresh_def)
  have t: "token_truthy forged_refresh"
    by (simp add: token_truthy_def forged_refresh_def)
  have "planted_db = blacklist_token (blacklist_token ?d1 demo_access 1900 True)
                       forged_refresh 50 True"
    by (simp add: planted_db_def logout_user_def Let_def t demo_db_def)
  then show ?thesis unfolding a b by (simp add: demo_db_def)
qed

lemma planted_db_verifies:
  "verify_refresh_token demo_refresh planted_db now
     = (if now \<le> 604900 \<and> 50 \<le> now then Inr (demo_user\<lparr>u_status := inactive\<rparr>)
        else if now \<le> 604900 then Inl Revoked else Inl Invalid)"
  by (simp add: verify_refresh_token_def verify_token_def jwt_decode_def demo_refresh_eq
        is_token_blacklisted_def planted_db_eq demo_defs)

text \<open>
  Claim C2, as stated, fails on the code, in three ways. (a) When the ledger write of a
  rotation does not go through, the rotation still returns a new pair, the ledger is
  unchanged, and the same refresh token verifies and rotates a second time. (b) In the
  store left by a logout that was handed a forged string with the token's \<open>jti\<close> and an
  expiry long past, every commit succeeds and yet the rotation writes nothing, because a
  row with that \<open>jti\<close> exists; the check, which reads unexpired rows only, lets the token
  through again. (c) A verifying token whose \<open>jti\<close> is the empty string is rotated without
  any ledger write.
\<close>

theorem rotation_replay_counterexample:
  "verify_refresh_token demo_refresh demo_db 200 = Inr demo_user
   \<and> refresh_access_token demo_db demo_refresh 200 1800 604800 ''a2'' ''r2'' False True
       = (demo_db, Inr (fst (create_access_token ''alice'' (Some 1800) 1800 200 ''a2''),
                        fst (create_refresh_token ''alice'' (Some 604800) 604800 200 ''r2'')))
   \<and> snd (refresh_access_token demo_db demo_refresh 300 1800 604800 ''a3'' ''r3'' True True)
       \<noteq> Inl Revoked
   \<and> verify_refresh_token demo_refresh planted_db 200 = Inr (demo_user\<lparr>u_status := inactive\<rparr>)
   \<and> refresh_access_token planted_db demo_refresh 200 1800 604800 ''a2'' ''r2'' True True
       = (planted_db, Inr (fst (create_access_token ''alice'' (Some 1800) 1800 200 ''a2''),
                           fst (create_refresh_token ''alice'' (Some 604800) 604800 200 ''r2'')))
   \<and> snd (refresh_access_token planted_db demo_refresh 300 1800 604800 ''a3'' ''r3'' True True)
       \<noteq> Inl Revoked
   \<and> verify_refresh_token empty_jti_refresh demo_db 200 = Inr demo_user
   \<and> refresh_access_token demo_db empty_jti_refresh 200 1800 604800 ''a2'' ''r2'' True True
       = (demo_db, Inr (fst (create_access_token ''alice'' (Some 1800) 1800 200 ''a2''),
                        fst (create_refresh_token ''alice'' (Some 604800) 604800 200 ''r2'')))"
proof -
  have x: "c_exp \<lparr> c_sub = Some ''alice'', c_jti = Some ''jti-r'', c_exp = Some 604900,
                    c_iat = Some 100, c_type = Some ''refresh'' \<rparr> = Some 604900"
    by simp
  have v: "verify_refresh_token demo_refresh demo_db 200 = Inr demo_user"
    by (simp add: demo_refresh_verifies)
  have a1: "refresh_access_token demo_db demo_refresh 200 1800 604800 ''a2'' ''r2'' False True
       = (demo_db, Inr (fst (create_access_token ''alice'' (Some 1800) 1800 200 ''a2''),
                        fst (create_refresh_token ''alice'' (Some 604800) 604800 200 ''r2'')))"
    unfolding refresh_access_token_verified[OF v demo_refresh_claims x]
    by (simp add: blacklist_token_commit_failed demo_user_def)
  have v2: "verify_refresh_token demo_refresh demo_db 300 = Inr demo_user"
    by (simp add: demo_refresh_verifies)
  have a2: "snd (refresh_access_token demo_db demo_refresh 300 1800 604800 ''a3'' ''r3'' True True)
              \<noteq> Inl Revoked"
    unfolding refresh_access_token_verified[OF v2 demo_refresh_claims x] by simp
  have pv: "verify_refresh_token demo_refresh planted_db 200
              = Inr (demo_user\<lparr>u_status := inactive\<rparr>)"
    by (simp add: planted_db_verifies)
  have noop: "blacklist_token planted_db demo_refresh 604900 True = planted_db"
    by (simp add: blacklist_token_cases demo_refresh_eq planted_db_eq)
  have b1: "refresh_access_token planted_db demo_refresh 200 1800 604800 ''a2'' ''r2'' True True
       = (planted_db, Inr (fst (create_access_token ''alice'' (Some 1800) 1800 200 ''a2''),
                           fst (create_refresh_token ''alice'' (Some 604800) 604800 200 ''r2'')))"
    unfolding refresh_access_token_verified[OF pv demo_refresh_claims x]
    by (simp add: noop demo_user_def)
  have pv2: "verify_refresh_token demo_refresh planted_db 300
              = Inr (demo_user\<lparr>u_status := inactive\<rparr>)"
    by (simp add: planted_db_verifies)
  have b2: "snd (refresh_access_token planted_db demo_refresh 300 1800 604800 ''a3'' ''r3''
                   True True) \<noteq> Inl Revoked"
    unfolding refresh_access_token_verified[OF pv2 demo_refresh_claims x] by simp
  have ec: "jwt_get_unverified_claims empty_jti_refresh
             = Some \<lparr> c_sub = Some ''alice'', c_jti = Some [], c_exp = Some 604900,
                      c_iat = Some 100, c_type = Some ''refresh'' \<rparr>"
    by (simp add: empty_jti_refresh_def jwt_get_unverified_claims_def)
  have ex: "c_exp \<lparr> c_sub = Some ''alice'', c_jti = Some [], c_exp = Some 604900,
                     c_iat = Some 100, c_type = Some ''refresh'' \<rparr> = Some 604900"
    by simp
  have ev: "verify_refresh_token empty_jti_refresh demo_db 200 = Inr demo_user"
    by (simp add: verify_refresh_token_def verify_token_def jwt_decode_def
          empty_jti_refresh_def is_token_blacklisted_def demo_defs)
  have enoop: "blacklist_token demo_db empty_jti_refresh 604900 True = demo_db"
    by (simp add: blacklist_token_cases empty_jti_refresh_def)
  have c1: "refresh_access_token demo_db empty_jti_refresh 200 1800 604800 ''a2'' ''r2'' True True
       = (demo_db, Inr (fst (create_access_token ''alice'' (Some 1800) 1800 200 ''a2''),
                        fst (create_refresh_token ''alice'' (Some 604800) 604800 200 ''r2'')))"
    unfolding refresh_access_token_verified[OF ev ec ex]
    by (simp add: enoop demo_user_def)
  from v a1 a2 pv b1 b2 ev c1 show ?thesis by (intro conjI)
qed

text \<open>
  Claim C2, amended. Let the refresh token verify, carry a non-empty \<open>jti\<close> for which the
  ledger holds no row, and expire at \<open>x\<close>. A rotation whose ledger write goes through
  appends the row for that \<open>jti\<close> with expiry \<open>x\<close>, and returns a new pair when the read that
  follows succeeds; from then on, at any time before \<open>x\<close>, verifying the token and rotating
  it again both fail with \<open>Revoked\<close>, and the failed rotation leaves the store as it is.
  Nothing is said of a rotation whose ledger write fails or finds a row with that \<open>jti\<close>.
\<close>

theorem rotation_single_use:
  assumes "verify_refresh_token r d now = Inr usr"
    and "jwt_get_unverified_claims r = Some c"
    and "c_jti c = Some j" and "j \<noteq> []"
    and "find (\<lambda>e. tb_jti e = j) (token_blacklist d) = None"
    and "c_exp c = Some x" and "now2 < x"
    and "d2 = fst (refresh_access_token d r now ad rd ja jr True rl)"
  shows "(rl \<longrightarrow> (\<exists>pair. snd (refresh_access_token d r now ad rd ja jr True rl) = Inr pair))
       \<and> d2 = d\<lparr>token_blacklist := token_blacklist d @
                  [\<lparr> tb_jti = j, tb_token = r, tb_expires_at = x \<rparr>]\<rparr>
       \<and> verify_refresh_token r d2 now2 = Inl Revoked
       \<and> refresh_access_token d2 r now2 adn rdn jan jrn okn rln = (d2, Inl Revoked)"
proof -
  note run = refresh_access_token_verified[OF assms(1) assms(2) assms(6), of ad rd ja jr True rl]
  have one: "rl \<longrightarrow> (\<exists>pair. snd (refresh_access_token d r now ad rd ja jr True rl) = Inr pair)"
    using run by auto
  have two: "d2 = d\<lparr>token_blacklist := token_blacklist d @
                  [\<lparr> tb_jti = j, tb_token = r, tb_expires_at = x \<rparr>]\<rparr>"
    by (simp add: assms(8) run blacklist_token_inserts[OF assms(2) assms(3) assms(4) assms(5)])
  from verify_token_Inr[OF assms(1)[unfolded verify_refresh_token_def]] assms(2)
  obtain s where r: "r = JWT c True" and s: "c_sub c = Some s"
    and ty: "c_type c = Some ''refresh''"
    by (auto simp: jwt_get_unverified_claims_def)
  from assms(7) have le: "now2 \<le> x" by simp
  have "is_token_blacklisted d2 now2 j"
    unfolding is_token_blacklisted_iff two using assms(7) by simp
  from verify_token_revoked[OF r s assms(3) ty assms(6) le this]
  have three: "verify_refresh_token r d2 now2 = Inl Revoked"
    by (simp add: verify_refresh_token_def)
  then have four: "refresh_access_token d2 r now2 adn rdn jan jrn okn rln = (d2, Inl Revoked)"
    by (simp add: refresh_access_token_def)
  from one two three four show ?thesis by (intro conjI)
qed

text \<open>
  Alice's refresh token, rotated at time 200 with the ledger write going through, is
  revoked at time 300.
\<close>

theorem rotation_single_use_witness:
  "verify_refresh_token demo_refresh demo_db 200 = Inr demo_user
   \<and> verify_refresh_token demo_refresh
        (fst (refresh_access_token demo_db demo_refresh 200 1800 604800 ''a2'' ''r2'' True True))
        300
       = Inl Revoked
   \<and> snd (refresh_access_token
        (fst (refresh_access_token demo_db demo_refresh 200 1800 604800 ''a2'' ''r2'' True True))
        demo_refresh 300 1800 604800 ''a3'' ''r3'' True True)
       = Inl Revoked"
proof -
  have v: "verify_refresh_token demo_refresh demo_db 200 = Inr demo_user"
    by (simp add: demo_refresh_verifies)
  have j: "c_jti \<lparr> c_sub = Some ''alice'', c_jti = Some ''jti-r'', c_exp = Some 604900,
                    c_iat = Some 100, c_type = Some ''refresh'' \<rparr> = Some ''jti-r''"
    by simp
  have ne: "''jti-r'' \<noteq> []" by simp
  have l: "find (\<lambda>e. tb_jti e = ''jti-r'') (token_blacklist demo_db) = None"
    by (simp add: demo_defs)
  have x: "c_exp \<lparr> c_sub = Some ''alice'', c_jti = Some ''jti-r'', c_exp = Some 604900,
                    c_iat = Some 100, c_type = Some ''refresh'' \<rparr> = Some 604900"
    by simp
  have n: "(300::int) < 604900" by simp
  note T = rotation_single_use
      [where ad = 1800 and rd = 604800 and ja = "''a2''" and jr = "''r2''" and rl = True
         and adn = 1800 and rdn = 604800 and jan = "''a3''" and jrn = "''r3''"
         and okn = True and rln = True,
       OF v demo_refresh_claims j ne l x n refl]
  note three = T[THEN conjunct2, THEN conjunct2, THEN conjunct1]
  note four = T[THEN conjunct2, THEN conjunct2, THEN conjunct2]
  have "snd (refresh_access_token
        (fst (refresh_access_token demo_db demo_refresh 200 1800 604800 ''a2'' ''r2'' True True))
        demo_refresh 300 1800 604800 ''a3'' ''r3'' True True)
       = Inl Revoked"
    unfolding four by simp
  with v three show ?thesis by blast
qed

text \<open>
  Claim C9. \<open>blacklist_token\<close> has no error result: whenever its \<open>try\<close> block raises, it
  returns with the store unchanged. In particular the store is unchanged when the token
  does not parse, when it carries no \<open>jti\<close> or an empty one, and when the commit fails.
  Consequently a rotation of a verified token whose ledger write fails still returns a new
  pair, and a logout whose ledger writes fail still reports success, with the ledger as it
  was.
\<close>

theorem blacklist_token_swallows_failures:
  "(blacklist_token_try d t e ok = None \<longrightarrow> blacklist_token d t e ok = d)
   \<and> (jwt_get_unverified_claims t = None \<longrightarrow> blacklist_token d t e ok = d)
   \<and> ((\<exists>c. jwt_get_unverified_claims t = Some c \<and> (c_jti c = None \<or> c_jti c = Some []))
        \<longrightarrow> blacklist_token d t e ok = d)
   \<and> blacklist_token d t e False = d
   \<and> (\<forall>usr c x. verify_refresh_token r d now = Inr usr
          \<and> jwt_get_unverified_claims r = Some c \<and> c_exp c = Some x \<longrightarrow>
        (\<exists>pair. refresh_access_token d r now ad rd ja jr False True = (d, Inr pair)))
   \<and> snd (logout_user d usr a ae rt re True True False False True)
       = Inr ''Successfully logged out''
   \<and> token_blacklist (fst (logout_user d usr a ae rt re True True False False True))
       = token_blacklist d"
proof -
  have c1: "blacklist_token_try d t e ok = None \<longrightarrow> blacklist_token d t e ok = d"
    by (simp add: blacklist_token_def)
  have c2: "jwt_get_unverified_claims t = None \<longrightarrow> blacklist_token d t e ok = d"
    by (simp add: blacklist_token_def blacklist_token_try_def)
  have c3: "(\<exists>c. jwt_get_unverified_claims t = Some c \<and> (c_jti c = None \<or> c_jti c = Some []))
        \<longrightarrow> blacklist_token d t e ok = d"
    by (auto simp: blacklist_token_def blacklist_token_try_def)
  have c4: "blacklist_token d t e False = d"
    by (rule blacklist_token_commit_failed)
  have c5: "\<forall>usr c x. verify_refresh_token r d now = Inr usr
          \<and> jwt_get_unverified_claims r = Some c \<and> c_exp c = Some x \<longrightarrow>
        (\<exists>pair. refresh_access_token d r now ad rd ja jr False True = (d, Inr pair))"
    by (auto simp: refresh_access_token_verified blacklist_token_commit_failed)
  have c6: "snd (logout_user d usr a ae rt re True True False False True)
              = Inr ''Successfully logged out''"
    by (simp add: logout_user_def Let_def)
  have c7: "token_blacklist (fst (logout_user d usr a ae rt re True True False False True))
              = token_blacklist d"
    by (simp add: logout_user_def Let_def blacklist_token_commit_failed split: option.splits)
  from c1 c2 c3 c4 c5 c6 c7 show ?thesis by (intro conjI)
qed

text \<open>
  A string that is no token is swallowed; alice's rotation with a failing ledger write
  returns a pair and leaves the store as it was.
\<close>

theorem blacklist_token_swallows_failures_witness:
  "blacklist_token_try demo_db (Malformed ''garbage'') 5 True = None
   \<and> blacklist_token demo_db (Malformed ''garbage'') 5 True = demo_db
   \<and> verify_refresh_token demo_refresh demo_db 200 = Inr demo_user
   \<and> (\<exists>pair. refresh_access_token demo_db demo_refresh 200 1800 604800 ''a2'' ''r2'' False True
               = (demo_db, Inr pair))"
proof -
  have t: "blacklist_token_try demo_db (Malformed ''garbage'') 5 True = None"
    by (simp add: blacklist_token_try_def jwt_get_unverified_claims_def)
  have v: "verify_refresh_token demo_refresh demo_db 200 = Inr demo_user"
    by (simp add: demo_refresh_verifies)
  note T = blacklist_token_swallows_failures
      [of demo_db "Malformed ''garbage''" 5 True demo_refresh 200 1800 604800 "''a2''" "''r2''"]
  from T t have a: "blacklist_token demo_db (Malformed ''garbage'') 5 True = demo_db"
    by blast
  note five = T[THEN conjunct2, THEN conjunct2, THEN conjunct2, THEN conjunct2, THEN conjunct1]
  have x: "c_exp \<lparr> c_sub = Some ''alice'', c_jti = Some ''jti-r'', c_exp = Some 604900,
                    c_iat = Some 100, c_type = Some ''refresh'' \<rparr> = Some 604900"
    by simp
  from five[rule_format, OF conjI[OF v conjI[OF demo_refresh_claims x]]]
  have b: "\<exists>pair. refresh_access_token demo_db demo_refresh 200 1800 604800
                        ''a2'' ''r2'' False True = (demo_db, Inr pair)" .
  from t a v b show ?thesis by blast
qed




end
